theory Spec2Isabelle
  imports Complex_Main "HOL-Library.AList"
begin

section \<open>The MNIST classifier wrapper of \<^verbatim>\<open>src/app/models/cnn.py\<close>\<close>

text \<open>
  The class \<^verbatim>\<open>MNISTClassifer\<close> wraps a Keras model. Everything numeric is done by
  Keras and numpy; the wrapper itself moves hyperparameters into a fixed layer stack,
  encodes labels, reads one number out of the training history, and copies its own
  attribute dictionary into and out of a document. The embedding below follows the
  Python line by line on these parts and takes the external library as a parameter.
\<close>

subsection \<open>Exceptions and values\<close>

text \<open>The exceptions that the wrapper's own statements can raise (or the library, through
  any of its calls).\<close>

datatype error =
    AttributeError
  | KeyError
  | IndexError
  | ValueError
  | TypeError
  | AssertionError
  | UnboundLocalError
  | FrameworkError

text \<open>Sequencing of statements that may raise: the first exception ends the run.\<close>

definition and_then :: "error + 'a \<Rightarrow> ('a \<Rightarrow> error + 'b) \<Rightarrow> error + 'b" where
  "and_then m f = (case m of Inl e \<Rightarrow> Inl e | Inr x \<Rightarrow> f x)"

text \<open>Python values that the wrapper stores in attributes: \<open>'g\<close> is the type of a Keras
  model handle.\<close>

datatype 'g pyval =
    PNone
  | PInt int
  | PStr string
  | PTuple "'g pyval list"
  | PList "'g pyval list"
  | PDict "(string \<times> 'g pyval) list"
  | PModel 'g

text \<open>A dictionary keeps its keys in insertion order; assignment to a present key keeps the
  key's position, assignment to a new key appends.\<close>

type_synonym 'g pydict = "(string \<times> 'g pyval) list"

definition dict_get :: "(string \<times> 'v) list \<Rightarrow> string \<Rightarrow> error + 'v" where
  \<comment> \<open>\<^verbatim>\<open>d[k]\<close>\<close>
  "dict_get d k = (case map_of d k of None \<Rightarrow> Inl KeyError | Some v \<Rightarrow> Inr v)"

definition dict_set :: "'g pydict \<Rightarrow> string \<Rightarrow> 'g pyval \<Rightarrow> 'g pydict" where
  \<comment> \<open>\<^verbatim>\<open>d[k] = v\<close>\<close>
  "dict_set d k v = AList.update k v d"

definition dict_pop :: "'g pydict \<Rightarrow> string \<Rightarrow> error + ('g pyval \<times> 'g pydict)" where
  \<comment> \<open>\<^verbatim>\<open>d.pop(k)\<close> with no default\<close>
  "dict_pop d k =
     (case map_of d k of None \<Rightarrow> Inl KeyError | Some v \<Rightarrow> Inr (v, AList.delete k d))"

definition wf_dict :: "'g pydict \<Rightarrow> bool" where
  \<comment> \<open>the keys of a Python dictionary are pairwise different\<close>
  "wf_dict d = distinct (map fst d)"

subsection \<open>The object store\<close>

text \<open>
  An instance is a reference; the store gives its attribute dictionary. The expression
  \<^verbatim>\<open>self.__dict__\<close> is that dictionary itself, not a copy, so it is the same reference.
  References below \<open>next_ref\<close> are allocated.
\<close>

type_synonym ref = nat

record 'g store =
  objs :: "ref \<Rightarrow> 'g pydict"
  next_ref :: ref

definition new_object :: "'g store \<Rightarrow> ref \<times> 'g store" where
  \<comment> \<open>\<^verbatim>\<open>object.__new__\<close>: a fresh instance with an empty attribute dictionary\<close>
  "new_object s =
     (next_ref s, s\<lparr>objs := (objs s)(next_ref s := []), next_ref := Suc (next_ref s)\<rparr>)"

definition setattr :: "'g store \<Rightarrow> ref \<Rightarrow> string \<Rightarrow> 'g pyval \<Rightarrow> 'g store" where
  \<comment> \<open>\<^verbatim>\<open>obj.name = v\<close>, also \<^verbatim>\<open>obj.__dict__[name] = v\<close>\<close>
  "setattr s r name v = s\<lparr>objs := (objs s)(r := dict_set (objs s r) name v)\<rparr>"

text \<open>The two class attributes, read from the environment when the class is defined
  (\<^verbatim>\<open>int(os.environ[...])\<close>, lines 29-30).\<close>

record class_env =
  feature_length :: int
  num_classes :: int

definition class_attrs :: "class_env \<Rightarrow> 'g pydict" where
  "class_attrs env =
     [(''feature_length'', PInt (feature_length env)),
      (''num_classes'', PInt (num_classes env))]"

definition getattr :: "class_env \<Rightarrow> 'g pydict \<Rightarrow> string \<Rightarrow> error + 'g pyval" where
  \<comment> \<open>\<^verbatim>\<open>self.name\<close>: the instance dictionary first, then the class (its data attributes;
      the methods are not values of this model)\<close>
  "getattr env d name =
     (case map_of d name of
        Some v \<Rightarrow> Inr v
      | None \<Rightarrow>
          (case map_of (class_attrs env) name of
             Some v \<Rightarrow> Inr v
           | None \<Rightarrow> Inl AttributeError))"

definition as_model :: "'g pyval \<Rightarrow> error + 'g" where
  \<comment> \<open>looking up a method of Keras' \<^verbatim>\<open>Model\<close> on a value (\<^verbatim>\<open>v.compile\<close>, \<^verbatim>\<open>v.predict\<close>,
      ...): \<^verbatim>\<open>None\<close> and the other values of this model have no such attribute\<close>
  "as_model v = (case v of PModel g \<Rightarrow> Inr g | _ \<Rightarrow> Inl AttributeError)"

definition local_var :: "'v option \<Rightarrow> error + 'v" where
  \<comment> \<open>reading a local variable of a function: \<open>None\<close> when no assignment has reached it\<close>
  "local_var v = (case v of None \<Rightarrow> Inl UnboundLocalError | Some x \<Rightarrow> Inr x)"

definition py_assert :: "bool \<Rightarrow> error + unit" where
  "py_assert b = (if b then Inr () else Inl AssertionError)"

definition list_last :: "'v list \<Rightarrow> error + 'v" where
  \<comment> \<open>\<^verbatim>\<open>xs[-1]\<close>\<close>
  "list_last xs = (if xs = [] then Inl IndexError else Inr (last xs))"

subsection \<open>The external library\<close>

text \<open>Arrays whose shape the wrapper inspects (\<^verbatim>\<open>y_train.ndim\<close>, \<^verbatim>\<open>.shape[1]\<close>):
  the shape and the elements in row-major order.\<close>

record 'a ndarray =
  shape :: "nat list"
  data :: "'a list"

definition ndim :: "'a ndarray \<Rightarrow> nat" where
  "ndim a = length (shape a)"

definition tuple_index :: "nat list \<Rightarrow> nat \<Rightarrow> error + nat" where
  \<comment> \<open>\<^verbatim>\<open>t[i]\<close> for \<open>i \<ge> 0\<close>\<close>
  "tuple_index t i = (if i < length t then Inr (t ! i) else Inl IndexError)"

text \<open>The layer constructors that \<^verbatim>\<open>_get_untrained_model\<close> calls, with the arguments it
  passes. Hyperparameters are passed on as they are stored, unchecked.\<close>

datatype 'g layer =
    Input "'g pyval"
  | Reshape "'g pyval"
  | Conv2D "'g pyval" "'g pyval" "'g pyval"
  | MaxPooling2D "'g pyval"
  | Flatten
  | Dense "'g pyval" "'g pyval" "string option"

text \<open>
  Keras and numpy, as far as the wrapper calls them. Every call may raise. A call that
  mutates a model in Python (\<^verbatim>\<open>compile\<close>, \<^verbatim>\<open>fit\<close>, \<^verbatim>\<open>set_weights\<close>) returns the
  model's new state here. Type parameters: \<open>'g\<close> model handles, \<open>'x\<close> feature matrices,
  \<open>'a\<close> label array elements, \<open>'f\<close> floating-point numbers, \<open>'kw\<close> the keyword arguments
  forwarded to Keras' \<^verbatim>\<open>fit\<close>, \<open>'w\<close> weight arrays.
\<close>

record ('g, 'x, 'a, 'f, 'kw, 'w) keras =
  to_categorical :: "'a ndarray \<Rightarrow> 'g pyval \<Rightarrow> error + 'a ndarray"
  keras_Model :: "'g layer list \<Rightarrow> error + 'g"
  keras_compile :: "'g \<Rightarrow> 'g pyval \<Rightarrow> 'g pyval \<Rightarrow> 'g pyval \<Rightarrow> error + 'g"
  keras_fit :: "'g \<Rightarrow> 'x \<Rightarrow> 'a ndarray \<Rightarrow> int \<Rightarrow> 'kw \<Rightarrow> error + ('g \<times> (string \<times> 'f list) list)"
  keras_predict :: "'g \<Rightarrow> 'x \<Rightarrow> error + 'f list list"
  get_config :: "'g \<Rightarrow> error + 'g pyval"
  get_weights :: "'g \<Rightarrow> error + 'w list"
  tolist :: "'w \<Rightarrow> 'g pyval"
  from_config :: "'g pyval \<Rightarrow> error + 'g"
  set_weights :: "'g \<Rightarrow> 'g pyval \<Rightarrow> error + 'g"

subsection \<open>The constructor (lines 32-64)\<close>

record 'g hyperparams =
  conv_layer_one_filters :: "'g pyval"
  conv_layer_one_kernel_size :: "'g pyval"
  conv_layer_one_activation :: "'g pyval"
  max_pooling_layer_one_pool_size :: "'g pyval"
  dense_layer_one_num_units :: "'g pyval"
  dense_layer_one_activation :: "'g pyval"
  dense_layer_two_num_units :: "'g pyval"
  dense_layer_two_activation :: "'g pyval"
  optimizer :: "'g pyval"
  loss :: "'g pyval"
  metrics :: "'g pyval"

definition default_hyperparams :: "'g hyperparams" where
  "default_hyperparams =
     \<lparr>conv_layer_one_filters = PInt 20,
      conv_layer_one_kernel_size = PTuple [PInt 2, PInt 2],
      conv_layer_one_activation = PStr ''relu'',
      max_pooling_layer_one_pool_size = PTuple [PInt 2, PInt 2],
      dense_layer_one_num_units = PInt 20,
      dense_layer_one_activation = PStr ''relu'',
      dense_layer_two_num_units = PInt 20,
      dense_layer_two_activation = PStr ''relu'',
      optimizer = PStr ''adam'',
      loss = PStr ''categorical_crossentropy'',
      metrics = PList [PStr ''accuracy'']\<rparr>"

definition init :: "'g hyperparams \<Rightarrow> 'g store \<Rightarrow> ref \<Rightarrow> 'g store" where
  \<comment> \<open>\<^verbatim>\<open>__init__\<close>: thirteen attribute assignments, in the source's order\<close>
  "init hp s self =
     (let s = setattr s self ''conv_layer_one_filters'' (conv_layer_one_filters hp);
          s = setattr s self ''conv_layer_one_kernel_size'' (conv_layer_one_kernel_size hp);
          s = setattr s self ''conv_layer_one_activation'' (conv_layer_one_activation hp);
          s = setattr s self ''max_pooling_layer_one_pool_size''
                (max_pooling_layer_one_pool_size hp);
          s = setattr s self ''dense_layer_one_num_units'' (dense_layer_one_num_units hp);
          s = setattr s self ''dense_layer_one_activation'' (dense_layer_one_activation hp);
          s = setattr s self ''dense_layer_two_num_units'' (dense_layer_two_num_units hp);
          s = setattr s self ''dense_layer_two_activation'' (dense_layer_two_activation hp);
          s = setattr s self ''optimizer'' (optimizer hp);
          s = setattr s self ''loss'' (loss hp);
          s = setattr s self ''metrics'' (metrics hp);
          s = setattr s self ''model'' PNone;
          s = setattr s self ''training_history'' PNone
      in s)"

definition MNISTClassifer :: "'g hyperparams \<Rightarrow> 'g store \<Rightarrow> ref \<times> 'g store" where
  \<comment> \<open>the call \<^verbatim>\<open>MNISTClassifer(...)\<close>: allocate, then \<^verbatim>\<open>__init__\<close>\<close>
  "MNISTClassifer hp s = (case new_object s of (r, s') \<Rightarrow> (r, init hp s' r))"

subsection \<open>Building the untrained graph (lines 156-191)\<close>

text \<open>
  \<^verbatim>\<open>int(np.sqrt(n))\<close>. For an integer \<open>n \<ge> 0\<close> this is the truncated square root; the
  double-precision square root is exact enough for that whenever \<open>n < 2^52\<close>, which is the
  range the theorems below speak about. For \<open>n < 0\<close> numpy gives NaN, and \<^verbatim>\<open>int(nan)\<close>
  raises \<^verbatim>\<open>ValueError\<close>. A feature length that is not an integer can only come from an
  instance attribute shadowing the class attribute; it is rejected here with
  \<^verbatim>\<open>TypeError\<close> and no theorem below depends on that branch.
\<close>

primrec isqrt :: "nat \<Rightarrow> nat" where
  "isqrt 0 = 0"
| "isqrt (Suc n) = (let r = isqrt n in if Suc r * Suc r \<le> Suc n then Suc r else r)"

definition int_np_sqrt :: "'g pyval \<Rightarrow> error + int" where
  "int_np_sqrt v =
     (case v of
        PInt n \<Rightarrow> (if n < 0 then Inl ValueError else Inr (int (isqrt (nat n))))
      | _ \<Rightarrow> Inl TypeError)"

definition graph_layers :: "class_env \<Rightarrow> 'g pydict \<Rightarrow> error + 'g layer list" where
  \<comment> \<open>the layers in the order the source chains them, each with the arguments it is given;
      attribute reads happen in the source's order\<close>
  "graph_layers env d =
     and_then (getattr env d ''feature_length'') (\<lambda>fl0.
     and_then (int_np_sqrt fl0) (\<lambda>num_image_rows.
     and_then (getattr env d ''feature_length'') (\<lambda>fl.
     and_then (getattr env d ''conv_layer_one_filters'') (\<lambda>filters.
     and_then (getattr env d ''conv_layer_one_kernel_size'') (\<lambda>kernel_size.
     and_then (getattr env d ''conv_layer_one_activation'') (\<lambda>conv_act.
     and_then (getattr env d ''max_pooling_layer_one_pool_size'') (\<lambda>pool_size.
     and_then (getattr env d ''dense_layer_one_num_units'') (\<lambda>units1.
     and_then (getattr env d ''dense_layer_one_activation'') (\<lambda>act1.
     and_then (getattr env d ''dense_layer_two_num_units'') (\<lambda>units2.
     and_then (getattr env d ''dense_layer_two_activation'') (\<lambda>act2.
     and_then (getattr env d ''num_classes'') (\<lambda>nc.
     Inr [Input (PTuple [fl]),
          Reshape (PTuple [PInt num_image_rows, PInt num_image_rows, PInt 1]),
          Conv2D filters kernel_size conv_act,
          MaxPooling2D pool_size,
          Flatten,
          Dense units1 act1 None,
          Dense units2 act2 None,
          Dense nc (PStr ''softmax'') (Some ''output_layer'')]))))))))))))"

definition get_untrained_model ::
  "('g, 'x, 'a, 'f, 'kw, 'w) keras \<Rightarrow> class_env \<Rightarrow> 'g pydict \<Rightarrow> error + 'g" where
  \<comment> \<open>\<^verbatim>\<open>_get_untrained_model\<close>: the layer stack, handed to Keras' \<^verbatim>\<open>Model\<close>; the failures
      of the single layer constructors are folded into that call\<close>
  "get_untrained_model K env d = and_then (graph_layers env d) (keras_Model K)"

subsection \<open>Training (lines 66-98)\<close>

definition encode_labels ::
  "('g, 'x, 'a, 'f, 'kw, 'w) keras \<Rightarrow> class_env \<Rightarrow> 'g pydict \<Rightarrow> 'a ndarray \<Rightarrow> error + 'a ndarray"
  where
  \<comment> \<open>lines 82-86, giving the value of the local \<^verbatim>\<open>y_one_hot\<close>. In the \<^verbatim>\<open>else\<close> branch
      the assertion reads \<^verbatim>\<open>y_one_hot\<close>, which no assignment has reached on that path.\<close>
  "encode_labels K env d y_train =
     (if ndim y_train = 1 then
        and_then (getattr env d ''num_classes'') (\<lambda>nc.
        to_categorical K y_train nc)
      else
        and_then (local_var (None :: 'a ndarray option)) (\<lambda>y_one_hot.
        and_then (tuple_index (shape y_one_hot) 1) (\<lambda>width.
        and_then (getattr env d ''num_classes'') (\<lambda>nc.
        and_then (py_assert (PInt (int width) = nc)) (\<lambda>_.
        Inr y_train)))))"

definition fit ::
  "('g, 'x, 'a, 'f, 'kw, 'w) keras \<Rightarrow> class_env \<Rightarrow> 'g store \<Rightarrow> ref \<Rightarrow> 'x \<Rightarrow> 'a ndarray \<Rightarrow> int \<Rightarrow> 'kw
     \<Rightarrow> error + ('f \<times> 'g store)" where
  "fit K env s self x_train y_train batch_size kwargs =
     and_then (encode_labels K env (objs s self) y_train) (\<lambda>y_one_hot.
     and_then (get_untrained_model K env (objs s self)) (\<lambda>g0.
     let s1 = setattr s self ''model'' (PModel g0) in
     and_then (getattr env (objs s1 self) ''model'') (\<lambda>m.
     and_then (as_model m) (\<lambda>g.
     and_then (getattr env (objs s1 self) ''optimizer'') (\<lambda>opt.
     and_then (getattr env (objs s1 self) ''loss'') (\<lambda>lo.
     and_then (getattr env (objs s1 self) ''metrics'') (\<lambda>me.
     and_then (keras_compile K g opt lo me) (\<lambda>g1.
     let s2 = setattr s1 self ''model'' (PModel g1) in
     and_then (getattr env (objs s2 self) ''model'') (\<lambda>m2.
     and_then (as_model m2) (\<lambda>g1'.
     and_then (keras_fit K g1' x_train y_one_hot batch_size kwargs) (\<lambda>(g2, history).
     let s3 = setattr s2 self ''model'' (PModel g2) in
     and_then (dict_get history ''val_acc'') (\<lambda>accs.
     and_then (list_last accs) (\<lambda>acc.
     Inr (acc, s3))))))))))))))"

subsection \<open>Serialization (lines 100-136)\<close>

definition to_json ::
  "('g, 'x, 'a, 'f, 'kw, 'w) keras \<Rightarrow> class_env \<Rightarrow> 'g store \<Rightarrow> ref \<Rightarrow> error + (ref \<times> 'g store)"
  where
  \<comment> \<open>\<^verbatim>\<open>out_dict = self.__dict__\<close> binds the instance's own dictionary, so the
      two item assignments and the \<^verbatim>\<open>pop\<close> act on the cell of \<open>self\<close>\<close>
  "to_json K env s self =
     (let out_dict = self in
      and_then (getattr env (objs s self) ''model'') (\<lambda>m.
      and_then (as_model m) (\<lambda>g.
      and_then (get_config K g) (\<lambda>cfg.
      let s1 = setattr s out_dict ''model_config'' cfg in
      and_then (getattr env (objs s1 self) ''model'') (\<lambda>m'.
      and_then (as_model m') (\<lambda>g'.
      and_then (get_weights K g') (\<lambda>ws.
      let s2 = setattr s1 out_dict ''model_weights'' (PList (map (tolist K) ws)) in
      and_then (dict_pop (objs s2 out_dict) ''model'') (\<lambda>(_, d').
      Inr (out_dict, s2\<lparr>objs := (objs s2)(out_dict := d')\<rparr>)))))))))"

definition copy_item :: "ref \<Rightarrow> string \<times> 'g pyval \<Rightarrow> 'g store \<Rightarrow> 'g store" where
  \<comment> \<open>the body of the loop of lines 127-129\<close>
  "copy_item new_obj kv st =
     (case kv of (key, value) \<Rightarrow>
        if key \<in> set [''model_config'', ''model_weights''] then st
        else setattr st new_obj key value)"

definition from_json ::
  "('g, 'x, 'a, 'f, 'kw, 'w) keras \<Rightarrow> class_env \<Rightarrow> 'g store \<Rightarrow> ref \<Rightarrow> error + (ref \<times> 'g store)"
  where
  "from_json K env s model_json =
     and_then (dict_get (objs s model_json) ''model_config'') (\<lambda>model_config.
     and_then (dict_get (objs s model_json) ''model_weights'') (\<lambda>model_weights.
     case MNISTClassifer default_hyperparams s of (new_obj, s1) \<Rightarrow>
     let s2 = fold (copy_item new_obj) (objs s1 model_json) s1 in
     and_then (from_config K model_config) (\<lambda>g.
     let s3 = setattr s2 new_obj ''model'' (PModel g) in
     and_then (getattr env (objs s3 new_obj) ''model'') (\<lambda>m.
     and_then (as_model m) (\<lambda>g'.
     and_then (set_weights K g' model_weights) (\<lambda>g''.
     Inr (new_obj, setattr s3 new_obj ''model'' (PModel g''))))))))"

subsection \<open>Prediction (lines 140-154)\<close>

text \<open>
  \<^verbatim>\<open>np.argmax(y_pred, axis=1)\<close> on the score rows: per row the index of the first
  largest entry; a row with no entry raises \<^verbatim>\<open>ValueError\<close>. Scores are taken from a
  linear order, so NaN is outside this model.
\<close>

fun argmax_from :: "'f::linorder \<Rightarrow> nat \<Rightarrow> nat \<Rightarrow> 'f list \<Rightarrow> nat" where
  "argmax_from best besti i [] = besti"
| "argmax_from best besti i (x # xs) =
     (if best < x then argmax_from x i (Suc i) xs else argmax_from best besti (Suc i) xs)"

definition argmax :: "'f::linorder list \<Rightarrow> nat" where
  "argmax row = (case row of [] \<Rightarrow> 0 | x # xs \<Rightarrow> argmax_from x 0 1 xs)"

definition np_argmax_axis1 :: "'f::linorder list list \<Rightarrow> error + nat list" where
  "np_argmax_axis1 rows = (if [] \<in> set rows then Inl ValueError else Inr (map argmax rows))"

text \<open>\<^verbatim>\<open>.astype(str)\<close> on an index: its decimal digits.\<close>

definition digit_char :: "nat \<Rightarrow> char" where
  "digit_char d = ''0123456789'' ! d"

fun str_nat :: "nat \<Rightarrow> string" where
  "str_nat n = (if n < 10 then [digit_char n] else str_nat (n div 10) @ [digit_char (n mod 10)])"

declare str_nat.simps [simp del]

definition predict ::
  "('g, 'x, 'a, 'f::linorder, 'kw, 'w) keras \<Rightarrow> class_env \<Rightarrow> 'g store \<Rightarrow> ref \<Rightarrow> 'x
     \<Rightarrow> error + string list" where
  "predict K env s self x_predict =
     and_then (getattr env (objs s self) ''model'') (\<lambda>m.
     and_then (as_model m) (\<lambda>g.
     and_then (keras_predict K g x_predict) (\<lambda>y_pred.
     and_then (np_argmax_axis1 y_pred) (\<lambda>construct.
     Inr (map str_nat construct)))))"

subsection \<open>Notions used in the statements\<close>

text \<open>The attribute dictionary that \<^verbatim>\<open>__init__\<close> leaves on a fresh instance.\<close>

definition init_dict :: "'g hyperparams \<Rightarrow> 'g pydict" where
  "init_dict hp =
     [(''conv_layer_one_filters'', conv_layer_one_filters hp),
      (''conv_layer_one_kernel_size'', conv_layer_one_kernel_size hp),
      (''conv_layer_one_activation'', conv_layer_one_activation hp),
      (''max_pooling_layer_one_pool_size'', max_pooling_layer_one_pool_size hp),
      (''dense_layer_one_num_units'', dense_layer_one_num_units hp),
      (''dense_layer_one_activation'', dense_layer_one_activation hp),
      (''dense_layer_two_num_units'', dense_layer_two_num_units hp),
      (''dense_layer_two_activation'', dense_layer_two_activation hp),
      (''optimizer'', optimizer hp),
      (''loss'', loss hp),
      (''metrics'', metrics hp),
      (''model'', PNone),
      (''training_history'', PNone)]"

text \<open>The attribute dictionary after the three updates of \<^verbatim>\<open>to_json\<close> (lines 110-115).\<close>

definition serialized :: "('g, 'x, 'a, 'f, 'kw, 'w) keras \<Rightarrow> 'g pydict \<Rightarrow> 'g pyval \<Rightarrow> 'w list \<Rightarrow> 'g pydict" where
  "serialized K d cfg ws =
     AList.delete ''model''
       (dict_set (dict_set d ''model_config'' cfg) ''model_weights'' (PList (map (tolist K) ws)))"

text \<open>The store once \<^verbatim>\<open>self.model\<close> holds the model that Keras' \<^verbatim>\<open>fit\<close> has trained.\<close>

definition trained_store :: "'g store \<Rightarrow> ref \<Rightarrow> 'g \<Rightarrow> 'g store" where
  "trained_store s self g = s\<lparr>objs := (objs s)(self := dict_set (objs s self) ''model'' (PModel g))\<rparr>"

text \<open>What \<^verbatim>\<open>fit\<close> does with the outcome of the external call (line 98).\<close>

definition fit_result :: "'g store \<Rightarrow> ref \<Rightarrow> 'g \<times> (string \<times> 'f list) list \<Rightarrow> error + ('f \<times> 'g store)" where
  "fit_result s self r =
     (case r of (g2, history) \<Rightarrow>
        and_then (dict_get history ''val_acc'') (\<lambda>accs.
        and_then (list_last accs) (\<lambda>acc.
        Inr (acc, trained_store s self g2))))"

text \<open>The value of \<^verbatim>\<open>num_image_rows\<close> (line 165) when the class attribute is read.\<close>

definition image_side :: "class_env \<Rightarrow> int" where
  "image_side env = int (isqrt (nat (feature_length env)))"

text \<open>The eight steps of the specification's graph construction, in its words: input of the
  feature length, reshape to (side, side, 1), convolution, max pooling, flatten, two
  configured dense layers, and the softmax output layer of class-count width named
  \<^verbatim>\<open>output_layer\<close>. It is compared with \<open>graph_layers\<close>, which follows the source.\<close>

definition spec_topology :: "class_env \<Rightarrow> 'g hyperparams \<Rightarrow> 'g layer list" where
  "spec_topology env hp =
     [Input (PTuple [PInt (feature_length env)]),
      Reshape (PTuple [PInt (image_side env), PInt (image_side env), PInt 1]),
      Conv2D (conv_layer_one_filters hp) (conv_layer_one_kernel_size hp)
        (conv_layer_one_activation hp),
      MaxPooling2D (max_pooling_layer_one_pool_size hp),
      Flatten,
      Dense (dense_layer_one_num_units hp) (dense_layer_one_activation hp) None,
      Dense (dense_layer_two_num_units hp) (dense_layer_two_activation hp) None,
      Dense (PInt (num_classes env)) (PStr ''softmax'') (Some ''output_layer'')]"

text \<open>An attribute dictionary holds the hyperparameters \<open>hp\<close>.\<close>

definition has_hyperparams :: "'g pydict \<Rightarrow> 'g hyperparams \<Rightarrow> bool" where
  "has_hyperparams d hp =
     (map_of d ''conv_layer_one_filters'' = Some (conv_layer_one_filters hp)
    \<and> map_of d ''conv_layer_one_kernel_size'' = Some (conv_layer_one_kernel_size hp)
    \<and> map_of d ''conv_layer_one_activation'' = Some (conv_layer_one_activation hp)
    \<and> map_of d ''max_pooling_layer_one_pool_size'' = Some (max_pooling_layer_one_pool_size hp)
    \<and> map_of d ''dense_layer_one_num_units'' = Some (dense_layer_one_num_units hp)
    \<and> map_of d ''dense_layer_one_activation'' = Some (dense_layer_one_activation hp)
    \<and> map_of d ''dense_layer_two_num_units'' = Some (dense_layer_two_num_units hp)
    \<and> map_of d ''dense_layer_two_activation'' = Some (dense_layer_two_activation hp)
    \<and> map_of d ''optimizer'' = Some (optimizer hp)
    \<and> map_of d ''loss'' = Some (loss hp)
    \<and> map_of d ''metrics'' = Some (metrics hp))"

text \<open>The instance has no attribute of its own named like a class attribute, so that
  \<^verbatim>\<open>self.feature_length\<close> and \<^verbatim>\<open>self.num_classes\<close> read the class.\<close>

definition class_attrs_unshadowed :: "'g pydict \<Rightarrow> bool" where
  "class_attrs_unshadowed d =
     (map_of d ''feature_length'' = None \<and> map_of d ''num_classes'' = None)"

subsection \<open>A small instance of the library interface\<close>

text \<open>A stand-in for Keras with integers for numbers, used to run the definitions on concrete
  inputs. It makes no claim about Keras itself: the theorems hold for every instance of the
  interface.\<close>

definition one_hot_row :: "nat \<Rightarrow> int \<Rightarrow> int list" where
  "one_hot_row n l = map (\<lambda>j. if int j = l then 1 else 0) [0..<n]"

definition toy_to_categorical :: "int ndarray \<Rightarrow> nat pyval \<Rightarrow> error + int ndarray" where
  "toy_to_categorical y nc =
     (case nc of
        PInt n \<Rightarrow>
          if list_all (\<lambda>l. 0 \<le> l \<and> l < n) (data y)
          then Inr \<lparr>shape = [length (data y), nat n],
                    data = concat (map (one_hot_row (nat n)) (data y))\<rparr>
          else Inl IndexError
      | _ \<Rightarrow> Inl TypeError)"

definition toy_set_weights :: "nat \<Rightarrow> nat pyval \<Rightarrow> error + nat" where
  "toy_set_weights g v = (case v of PList ws \<Rightarrow> Inr (length ws) | _ \<Rightarrow> Inl ValueError)"

definition toy_keras :: "(nat, int list list, int, int, unit, int list) keras" where
  "toy_keras =
     \<lparr>to_categorical = toy_to_categorical,
      keras_Model = (\<lambda>ls. Inr 0),
      keras_compile = (\<lambda>g opt lo me. Inr g),
      keras_fit = (\<lambda>g x y b kw. Inr (Suc g, [(''loss'', [2, 1]), (''val_acc'', [5, 7])])),
      keras_predict = (\<lambda>g x. Inr x),
      get_config = (\<lambda>g. Inr (PStr ''config'')),
      get_weights = (\<lambda>g. Inr (replicate g [0])),
      tolist = (\<lambda>w. PList (map PInt w)),
      from_config = (\<lambda>c. Inr 0),
      set_weights = toy_set_weights\<rparr>"

definition toy_keras_no_validation :: "(nat, int list list, int, int, unit, int list) keras" where
  "toy_keras_no_validation =
     toy_keras\<lparr>keras_fit := (\<lambda>g x y b kw. Inr (Suc g, [(''loss'', [2, 1])]))\<rparr>"

text \<open>Concrete environments, stores and label arrays: MNIST's 784 features and 10 classes, and the
  specification's small scenario (feature length 4, two classes, labels 0 and 1).\<close>

definition mnist_env :: class_env where
  "mnist_env = \<lparr>feature_length = 784, num_classes = 10\<rparr>"

definition small_env :: class_env where
  "small_env = \<lparr>feature_length = 4, num_classes = 2\<rparr>"

definition empty_store :: "nat store" where
  "empty_store = \<lparr>objs = (\<lambda>_. []), next_ref = 0\<rparr>"

definition demo_hp :: "nat hyperparams" where
  "demo_hp = default_hyperparams\<lparr>conv_layer_one_filters := PInt 32, optimizer := PStr ''sgd''\<rparr>"

definition demo_store :: "nat store" where
  "demo_store = snd (MNISTClassifer demo_hp empty_store)"

definition fitted_store :: "nat store" where
  "fitted_store = setattr demo_store 0 ''model'' (PModel 3)"

definition demo_labels :: "int ndarray" where
  "demo_labels = \<lparr>shape = [2], data = [0, 1]\<rparr>"

definition demo_one_hot :: "int ndarray" where
  "demo_one_hot = \<lparr>shape = [2, 2], data = [1, 0, 0, 1]\<rparr>"

section \<open>Properties\<close>

lemma and_then_simps [simp]:
  "and_then (Inl e) f = Inl e" "and_then (Inr x) f = f x"
  by (simp_all add: and_then_def)

lemma objs_setattr [simp]:
  "objs (setattr s r k v) r' = (if r' = r then dict_set (objs s r) k v else objs s r')"
  by (simp add: setattr_def)

lemma next_ref_setattr [simp]: "next_ref (setattr s r k v) = next_ref s"
  by (simp add: setattr_def)

lemma map_of_dict_set [simp]:
  "map_of (dict_set d k v) k' = (if k' = k then Some v else map_of d k')"
  by (simp add: dict_set_def update_conv')

lemma objs_init_other: "r' \<noteq> r \<Longrightarrow> objs (init hp s r) r' = objs s r'"
  by (simp add: init_def Let_def)

lemma next_ref_init [simp]: "next_ref (init hp s r) = next_ref s"
  by (simp add: init_def Let_def)

lemma objs_init_fresh: "objs s r = [] \<Longrightarrow> objs (init hp s r) r = init_dict hp"
  by (simp add: init_def Let_def init_dict_def dict_set_def)

lemma MNISTClassifer_eq:
  "MNISTClassifer hp s = (r, s') \<Longrightarrow>
     r = next_ref s \<and> next_ref s' = Suc (next_ref s) \<and> objs s' r = init_dict hp
     \<and> (\<forall>r'. r' \<noteq> r \<longrightarrow> objs s' r' = objs s r')"
  by (auto simp: MNISTClassifer_def new_object_def objs_init_fresh objs_init_other)

lemma isqrt_bounds: "isqrt n * isqrt n \<le> n \<and> n < Suc (isqrt n) * Suc (isqrt n)"
  by (induction n) (auto simp: Let_def)

lemma isqrt_floor_sqrt: "isqrt n = nat \<lfloor>sqrt (real n)\<rfloor>"
proof -
  let ?r = "isqrt n"
  have lo: "real ?r \<le> sqrt (real n)"
  proof -
    have "real ?r * real ?r \<le> real n"
      using isqrt_bounds [of n] by (metis of_nat_le_iff of_nat_mult)
    then show ?thesis by (simp add: real_le_rsqrt power2_eq_square)
  qed
  have hi: "sqrt (real n) < real ?r + 1"
  proof -
    have "real n < (real ?r + 1) * (real ?r + 1)"
      using isqrt_bounds [of n] by (metis of_nat_less_iff of_nat_mult of_nat_Suc add.commute)
    then show ?thesis by (simp add: real_less_lsqrt power2_eq_square)
  qed
  have "\<lfloor>sqrt (real n)\<rfloor> = int ?r"
    using lo hi by (simp add: floor_eq_iff)
  then show ?thesis by simp
qed

lemma getattr_model:
  "getattr env d ''model'' =
     (case map_of d ''model'' of Some v \<Rightarrow> Inr v | None \<Rightarrow> Inl AttributeError)"
  by (simp add: getattr_def class_attrs_def split: option.splits)

lemma as_model_simps [simp]:
  "as_model (PModel g) = Inr g" "as_model PNone = Inl AttributeError"
  by (simp_all add: as_model_def)

lemma as_model_Inr_iff: "as_model v = Inr g \<longleftrightarrow> v = PModel g"
  by (cases v) (simp_all add: as_model_def)

lemma to_json_eval:
  assumes "map_of (objs s self) ''model'' = Some (PModel g)"
    and "get_config K g = Inr cfg" and "get_weights K g = Inr ws"
  shows "to_json K env s self =
           Inr (self, s\<lparr>objs := (objs s)(self := serialized K (objs s self) cfg ws)\<rparr>)"
  using assms
  by (simp add: to_json_def Let_def getattr_model dict_pop_def serialized_def setattr_def)

lemma to_json_no_model:
  assumes "map_of (objs s self) ''model'' = None \<or> map_of (objs s self) ''model'' = Some PNone"
  shows "to_json K env s self = Inl AttributeError"
  using assms by (auto simp: to_json_def Let_def getattr_model)

lemma to_json_InrD:
  assumes "to_json K env s self = Inr (doc, s')"
  shows "\<exists>g cfg ws. map_of (objs s self) ''model'' = Some (PModel g)
            \<and> get_config K g = Inr cfg \<and> get_weights K g = Inr ws"
proof -
  obtain v where v: "map_of (objs s self) ''model'' = Some v"
    using assms by (cases "map_of (objs s self) ''model''") (simp_all add: to_json_def Let_def getattr_model)
  obtain g where g: "v = PModel g"
    using assms v by (cases "as_model v") (simp_all add: to_json_def Let_def getattr_model as_model_Inr_iff)
  obtain cfg where cfg: "get_config K g = Inr cfg"
    using assms v g by (cases "get_config K g") (simp_all add: to_json_def Let_def getattr_model)
  obtain ws where ws: "get_weights K g = Inr ws"
    using assms v g cfg by (cases "get_weights K g") (simp_all add: to_json_def Let_def getattr_model)
  show ?thesis using v g cfg ws by blast
qed

lemma map_of_serialized:
  "map_of (serialized K d cfg ws) k =
     (if k = ''model'' then None
      else if k = ''model_weights'' then Some (PList (map (tolist K) ws))
      else if k = ''model_config'' then Some cfg
      else map_of d k)"
  by (simp add: serialized_def delete_conv')

text \<open>
  Claim C5. The document that \<^verbatim>\<open>to_json\<close> returns is the instance's own attribute
  dictionary: after the call the instance has no \<^verbatim>\<open>model\<close> attribute any more, and
  \<^verbatim>\<open>model_config\<close> and \<^verbatim>\<open>model_weights\<close> are attributes of the instance.
\<close>

theorem to_json_aliases_instance:
  assumes "to_json K env s self = Inr (doc, s')"
  shows "doc = self
     \<and> map_of (objs s' self) ''model'' = None
     \<and> (\<exists>g cfg ws. map_of (objs s self) ''model'' = Some (PModel g)
           \<and> get_config K g = Inr cfg \<and> get_weights K g = Inr ws
           \<and> map_of (objs s' doc) ''model_config'' = Some cfg
           \<and> map_of (objs s' doc) ''model_weights'' = Some (PList (map (tolist K) ws))
           \<and> map_of (objs s' self) ''model_config'' = Some cfg
           \<and> map_of (objs s' self) ''model_weights'' = Some (PList (map (tolist K) ws)))"
proof -
  obtain g cfg ws where h: "map_of (objs s self) ''model'' = Some (PModel g)"
      "get_config K g = Inr cfg" "get_weights K g = Inr ws"
    using to_json_InrD [OF assms] by blast
  from to_json_eval [OF h, of env] assms
  have eq: "doc = self" "s' = s\<lparr>objs := (objs s)(self := serialized K (objs s self) cfg ws)\<rparr>"
    by simp_all
  show ?thesis using h by (simp add: eq map_of_serialized)
qed

text \<open>
  Claim C10. \<^verbatim>\<open>to_json\<close> fails with an error when the \<^verbatim>\<open>model\<close> attribute is \<^verbatim>\<open>None\<close>
  or missing: on a freshly constructed instance, and on an instance right after a
  successful \<^verbatim>\<open>to_json\<close>, so that a second call in succession fails.
\<close>

theorem to_json_needs_graph:
  "((map_of (objs s self) ''model'' = None \<or> map_of (objs s self) ''model'' = Some PNone)
      \<longrightarrow> to_json K env s self = Inl AttributeError)
   \<and> (MNISTClassifer hp s = (self, s') \<longrightarrow> to_json K env s' self = Inl AttributeError)
   \<and> (to_json K env s self = Inr (doc, s') \<longrightarrow> to_json K env s' self = Inl AttributeError)"
proof (intro conjI impI)
  assume "map_of (objs s self) ''model'' = None \<or> map_of (objs s self) ''model'' = Some PNone"
  then show "to_json K env s self = Inl AttributeError" by (rule to_json_no_model)
next
  assume "MNISTClassifer hp s = (self, s')"
  then have "objs s' self = init_dict hp" using MNISTClassifer_eq by blast
  then have "map_of (objs s' self) ''model'' = Some PNone" by (simp add: init_dict_def)
  then show "to_json K env s' self = Inl AttributeError" by (simp add: to_json_no_model)
next
  assume a: "to_json K env s self = Inr (doc, s')"
  obtain g cfg ws where h: "map_of (objs s self) ''model'' = Some (PModel g)"
      "get_config K g = Inr cfg" "get_weights K g = Inr ws"
    using to_json_InrD [OF a] by blast
  from to_json_eval [OF h, of env] a
  have "s' = s\<lparr>objs := (objs s)(self := serialized K (objs s self) cfg ws)\<rparr>" by simp
  then have "map_of (objs s' self) ''model'' = None" by (simp add: map_of_serialized)
  then show "to_json K env s' self = Inl AttributeError" by (simp add: to_json_no_model)
qed

text \<open>
  Claim C7. On an instance whose \<^verbatim>\<open>model\<close> attribute is \<^verbatim>\<open>None\<close> or missing, and so on
  every freshly constructed instance, \<^verbatim>\<open>predict\<close> fails with an error (Python's
  \<^verbatim>\<open>AttributeError\<close>) and returns nothing.
\<close>

theorem predict_needs_graph:
  "((map_of (objs s self) ''model'' = None \<or> map_of (objs s self) ''model'' = Some PNone)
      \<longrightarrow> predict K env s self x = Inl AttributeError)
   \<and> (MNISTClassifer hp s = (self, s') \<longrightarrow> predict K env s' self x = Inl AttributeError)"
proof (intro conjI impI)
  assume "map_of (objs s self) ''model'' = None \<or> map_of (objs s self) ''model'' = Some PNone"
  then show "predict K env s self x = Inl AttributeError"
    by (auto simp: predict_def getattr_model)
next
  assume "MNISTClassifer hp s = (self, s')"
  then have "objs s' self = init_dict hp" using MNISTClassifer_eq by blast
  then have "map_of (objs s' self) ''model'' = Some PNone" by (simp add: init_dict_def)
  then show "predict K env s' self x = Inl AttributeError"
    by (simp add: predict_def getattr_model)
qed




lemma encode_labels_not_1D:
  "ndim y \<noteq> 1 \<Longrightarrow> encode_labels K env d y = Inl UnboundLocalError"
  by (simp add: encode_labels_def local_var_def)

lemma fit_not_1D: "ndim y \<noteq> 1 \<Longrightarrow> fit K env s self x y b kw = Inl UnboundLocalError"
  by (simp add: fit_def encode_labels_not_1D)

lemma getattr_dict_set_other:
  "k \<noteq> k' \<Longrightarrow> getattr env (dict_set d k' v) k = getattr env d k"
  by (simp add: getattr_def)

lemma dict_set_twice [simp]: "dict_set (dict_set d k v) k v' = dict_set d k v'"
  by (simp add: dict_set_def)

lemma getattr_dict_set_same [simp]: "getattr env (dict_set d k v) k = Inr v"
  by (simp add: getattr_def)

lemma fit_result_fun:
  "fit_result s self =
     (\<lambda>(g2, history).
        and_then (dict_get history ''val_acc'') (\<lambda>accs.
        and_then (list_last accs) (\<lambda>acc.
        Inr (acc, trained_store s self g2))))"
  by (rule ext) (simp add: fit_result_def split: prod.splits)

lemma fit_unfold:
  "fit K env s self x y b kw =
     and_then (encode_labels K env (objs s self) y) (\<lambda>y1.
     and_then (get_untrained_model K env (objs s self)) (\<lambda>g0.
     and_then (getattr env (objs s self) ''optimizer'') (\<lambda>opt.
     and_then (getattr env (objs s self) ''loss'') (\<lambda>lo.
     and_then (getattr env (objs s self) ''metrics'') (\<lambda>me.
     and_then (keras_compile K g0 opt lo me) (\<lambda>g1.
     and_then (keras_fit K g1 x y1 b kw) (fit_result s self)))))))"
  unfolding fit_def Let_def
  by (simp add: getattr_dict_set_other fit_result_fun trained_store_def setattr_def)

lemma objs_fold_copy_item_other:
  "r' \<noteq> r \<Longrightarrow> objs (fold (copy_item r) items st) r' = objs st r'"
  by (induction items arbitrary: st) (auto simp: copy_item_def)

lemma next_ref_fold_copy_item [simp]:
  "next_ref (fold (copy_item r) items st) = next_ref st"
  by (induction items arbitrary: st) (auto simp: copy_item_def)

lemma map_of_fold_copy_item:
  assumes "distinct (map fst items)"
  shows "map_of (objs (fold (copy_item r) items st) r) k =
     (if k = ''model_config'' \<or> k = ''model_weights'' then map_of (objs st r) k
      else (case map_of items k of Some v \<Rightarrow> Some v | None \<Rightarrow> map_of (objs st r) k))"
  using assms
proof (induction items arbitrary: st)
  case Nil
  then show ?case by simp
next
  case (Cons kv items)
  obtain k0 v0 where kv: "kv = (k0, v0)" by (cases kv)
  have d: "distinct (map fst items)" and nin: "k0 \<notin> fst ` set items"
    using Cons.prems kv by auto
  have none: "map_of items k0 = None" using nin by (simp add: map_of_eq_None_iff)
  show ?case
    using Cons.IH [OF d, of "copy_item r kv st"] none
    by (auto simp: kv copy_item_def split: option.splits)
qed

lemma from_json_eval:
  assumes live: "doc < next_ref s"
    and wf: "wf_dict (objs s doc)"
    and cfg: "map_of (objs s doc) ''model_config'' = Some cfg"
    and wl: "map_of (objs s doc) ''model_weights'' = Some wl"
    and fc: "from_config K cfg = Inr g1"
    and sw: "set_weights K g1 wl = Inr g2"
  shows "\<exists>s2. from_json K env s doc = Inr (next_ref s, s2)
     \<and> map_of (objs s2 (next_ref s)) ''model'' = Some (PModel g2)
     \<and> (\<forall>k. k \<noteq> ''model'' \<and> k \<noteq> ''model_config'' \<and> k \<noteq> ''model_weights'' \<longrightarrow>
           map_of (objs s2 (next_ref s)) k =
             (case map_of (objs s doc) k of
                Some v \<Rightarrow> Some v
              | None \<Rightarrow> map_of (init_dict default_hyperparams) k))
     \<and> (\<forall>r. r \<noteq> next_ref s \<longrightarrow> objs s2 r = objs s r)
     \<and> next_ref s2 = Suc (next_ref s)"
proof -
  obtain new s1 where new: "MNISTClassifer default_hyperparams s = (new, s1)"
    by (cases "MNISTClassifer default_hyperparams s")
  from MNISTClassifer_eq [OF new]
  have n: "new = next_ref s" and nx: "next_ref s1 = Suc (next_ref s)"
    and fresh: "objs s1 new = init_dict default_hyperparams"
    and other: "\<And>r. r \<noteq> new \<Longrightarrow> objs s1 r = objs s r"
    by auto
  have ne: "doc \<noteq> new" using live n by simp
  have items: "objs s1 doc = objs s doc" using other ne by simp
  define s2 where "s2 = fold (copy_item new) (objs s doc) s1"
  define s4 where "s4 = setattr (setattr s2 new ''model'' (PModel g1)) new ''model'' (PModel g2)"
  have eq: "from_json K env s doc = Inr (new, s4)"
    using cfg wl fc sw
    by (simp add: from_json_def dict_get_def new items Let_def s2_def s4_def)
  have dist: "distinct (map fst (objs s doc))" using wf by (simp add: wf_dict_def)
  have a: "map_of (objs s4 new) ''model'' = Some (PModel g2)"
    by (simp add: s4_def)
  have b: "map_of (objs s4 new) k =
             (case map_of (objs s doc) k of
                Some v \<Rightarrow> Some v
              | None \<Rightarrow> map_of (init_dict default_hyperparams) k)"
    if "k \<noteq> ''model'' \<and> k \<noteq> ''model_config'' \<and> k \<noteq> ''model_weights''" for k
    using that map_of_fold_copy_item [OF dist, of new s1 k]
    by (simp add: s4_def s2_def fresh split: option.splits)
  have c: "objs s4 r = objs s r" if "r \<noteq> new" for r
    using that by (simp add: s4_def s2_def objs_fold_copy_item_other other)
  have d: "next_ref s4 = Suc (next_ref s)"
    by (simp add: s4_def s2_def nx)
  show ?thesis using eq a b c d n by blast
qed

text \<open>
  Claim C4. For an instance with a graph \<open>g\<close>, \<^verbatim>\<open>from_json\<close> applied to the document of
  \<^verbatim>\<open>to_json\<close> gives a new instance on which every attribute of the original other than
  \<^verbatim>\<open>model\<close>, \<^verbatim>\<open>model_config\<close> and \<^verbatim>\<open>model_weights\<close> (so every hyperparameter) has the
  original's value, and whose graph is rebuilt from the configuration of \<open>g\<close> with the
  weights of \<open>g\<close> loaded.
\<close>

theorem json_roundtrip:
  assumes live: "self < next_ref s"
    and wf: "wf_dict (objs s self)"
    and m: "map_of (objs s self) ''model'' = Some (PModel g)"
    and gc: "get_config K g = Inr cfg"
    and gw: "get_weights K g = Inr ws"
    and fc: "from_config K cfg = Inr g1"
    and sw: "set_weights K g1 (PList (map (tolist K) ws)) = Inr g2"
  shows "\<exists>doc s1 new s2.
       to_json K env s self = Inr (doc, s1)
     \<and> from_json K env s1 doc = Inr (new, s2)
     \<and> new \<noteq> self
     \<and> map_of (objs s2 new) ''model'' = Some (PModel g2)
     \<and> (\<forall>k v. k \<noteq> ''model'' \<and> k \<noteq> ''model_config'' \<and> k \<noteq> ''model_weights'' \<longrightarrow>
           map_of (objs s self) k = Some v \<longrightarrow> map_of (objs s2 new) k = Some v)
     \<and> (\<forall>hp. has_hyperparams (objs s self) hp \<longrightarrow> has_hyperparams (objs s2 new) hp)"
proof -
  define s1 where "s1 = s\<lparr>objs := (objs s)(self := serialized K (objs s self) cfg ws)\<rparr>"
  have tj: "to_json K env s self = Inr (self, s1)"
    unfolding s1_def by (rule to_json_eval [OF m gc gw])
  have live1: "self < next_ref s1" using live by (simp add: s1_def)
  have d1: "objs s1 self = serialized K (objs s self) cfg ws" by (simp add: s1_def)
  have wf1: "wf_dict (objs s1 self)"
    using wf by (simp add: d1 serialized_def wf_dict_def dict_set_def distinct_delete distinct_update)
  have c1: "map_of (objs s1 self) ''model_config'' = Some cfg"
    and w1: "map_of (objs s1 self) ''model_weights'' = Some (PList (map (tolist K) ws))"
    by (simp_all add: d1 map_of_serialized)
  from from_json_eval [OF live1 wf1 c1 w1 fc sw, of env]
  obtain s2 where fj: "from_json K env s1 self = Inr (next_ref s1, s2)"
    and mm: "map_of (objs s2 (next_ref s1)) ''model'' = Some (PModel g2)"
    and kk: "\<forall>k. k \<noteq> ''model'' \<and> k \<noteq> ''model_config'' \<and> k \<noteq> ''model_weights'' \<longrightarrow>
           map_of (objs s2 (next_ref s1)) k =
             (case map_of (objs s1 self) k of
                Some v \<Rightarrow> Some v
              | None \<Rightarrow> map_of (init_dict default_hyperparams) k)"
    by blast
  have ne: "next_ref s1 \<noteq> self" using live1 by simp
  have keep: "map_of (objs s2 (next_ref s1)) k = Some v"
    if "k \<noteq> ''model'' \<and> k \<noteq> ''model_config'' \<and> k \<noteq> ''model_weights''"
      and "map_of (objs s self) k = Some v" for k v
    using that kk by (simp add: d1 map_of_serialized)
  have hps: "has_hyperparams (objs s2 (next_ref s1)) hp"
    if "has_hyperparams (objs s self) hp" for hp
    using that unfolding has_hyperparams_def
    by (intro conjI; elim conjE) (rule keep, simp, assumption)+
  have k1: "\<forall>k v. k \<noteq> ''model'' \<and> k \<noteq> ''model_config'' \<and> k \<noteq> ''model_weights'' \<longrightarrow>
           map_of (objs s self) k = Some v \<longrightarrow> map_of (objs s2 (next_ref s1)) k = Some v"
    using keep by (intro allI impI)
  have k2: "\<forall>hp. has_hyperparams (objs s self) hp \<longrightarrow> has_hyperparams (objs s2 (next_ref s1)) hp"
    using hps by (intro allI impI)
  show ?thesis
    by (intro exI conjI) (rule tj fj ne mm k1 k2)+
qed

lemma init_dict_has_hyperparams: "has_hyperparams (init_dict hp) hp"
  by (simp add: has_hyperparams_def init_dict_def)

lemma init_dict_unshadowed: "class_attrs_unshadowed (init_dict hp)"
  by (simp add: class_attrs_unshadowed_def init_dict_def)

lemma getattr_present: "map_of d k = Some v \<Longrightarrow> getattr env d k = Inr v"
  by (simp add: getattr_def)

lemma getattr_class:
  assumes "class_attrs_unshadowed d"
  shows "getattr env d ''feature_length'' = Inr (PInt (feature_length env))"
    and "getattr env d ''num_classes'' = Inr (PInt (num_classes env))"
  using assms by (simp_all add: class_attrs_unshadowed_def getattr_def class_attrs_def)

lemma graph_layers_eval:
  assumes "0 \<le> feature_length env" and "has_hyperparams d hp" and "class_attrs_unshadowed d"
  shows "graph_layers env d = Inr (spec_topology env hp)"
  using assms(1,2)
  by (simp add: graph_layers_def getattr_class [OF assms(3)] has_hyperparams_def
      getattr_present int_np_sqrt_def spec_topology_def image_side_def)

lemma image_side_bounds:
  assumes "0 \<le> feature_length env"
  shows "0 \<le> image_side env"
    and "image_side env * image_side env \<le> feature_length env"
    and "feature_length env < (image_side env + 1) * (image_side env + 1)"
    and "image_side env = \<lfloor>sqrt (real_of_int (feature_length env))\<rfloor>"
proof -
  let ?n = "nat (feature_length env)"
  have n: "int ?n = feature_length env" using assms by simp
  show "0 \<le> image_side env" by (simp add: image_side_def)
  have "int (isqrt ?n * isqrt ?n) \<le> int ?n"
    using isqrt_bounds [of ?n] by (simp only: of_nat_le_iff)
  then show "image_side env * image_side env \<le> feature_length env"
    using n by (simp add: image_side_def)
  have "int ?n < int (Suc (isqrt ?n) * Suc (isqrt ?n))"
    using isqrt_bounds [of ?n] by (simp only: of_nat_less_iff)
  then show "feature_length env < (image_side env + 1) * (image_side env + 1)"
    using n by (simp add: image_side_def algebra_simps)
  have "real ?n = real_of_int (feature_length env)" using assms by simp
  then show "image_side env = \<lfloor>sqrt (real_of_int (feature_length env))\<rfloor>"
    using isqrt_floor_sqrt [of ?n] by (simp add: image_side_def)
qed

text \<open>
  Claim C3. For an instance that holds the hyperparameters \<open>hp\<close>, whatever their values,
  the builder requests exactly the eight layers of the specification: the input has the
  width of the class-wide feature length, the reshape side is the truncated square root of
  the feature length, and the last layer is the softmax layer \<^verbatim>\<open>output_layer\<close> of
  class-count width. The graph is what Keras' \<^verbatim>\<open>Model\<close> makes of these layers.
\<close>

theorem untrained_graph_topology:
  assumes "0 \<le> feature_length env" and "feature_length env < 2 ^ 52"
    and "has_hyperparams d hp" and "class_attrs_unshadowed d"
  shows "graph_layers env d = Inr (spec_topology env hp)
     \<and> get_untrained_model K env d = keras_Model K (spec_topology env hp)
     \<and> 0 \<le> image_side env
     \<and> image_side env * image_side env \<le> feature_length env
     \<and> feature_length env < (image_side env + 1) * (image_side env + 1)
     \<and> image_side env = \<lfloor>sqrt (real_of_int (feature_length env))\<rfloor>"
  using graph_layers_eval [OF assms(1,3,4)] image_side_bounds [OF assms(1)]
  by (simp add: get_untrained_model_def)

text \<open>
  Claim C1. A call of \<^verbatim>\<open>fit\<close> with a two-dimensional label matrix whose width differs from
  the class count should fail on the width assertion. On the source the assertion reads the
  local \<^verbatim>\<open>y_one_hot\<close> before any assignment, so the call ends in \<^verbatim>\<open>UnboundLocalError\<close>,
  not in a failed assertion: here with a 2 by 3 matrix and two classes.
\<close>

theorem fit_2D_mismatch_unbound_local:
  "fit K \<lparr>feature_length = fl, num_classes = 2\<rparr> s self x
      \<lparr>shape = [2, 3], data = ys\<rparr> b kw = Inl UnboundLocalError
   \<and> Inl UnboundLocalError \<noteq> (Inl AssertionError :: error + ('f \<times> 'g store))"
proof -
  let ?y = "\<lparr>shape = [2, 3], data = ys\<rparr>"
  have "ndim ?y = 2" by (simp add: ndim_def)
  then have "ndim ?y \<noteq> 1" by simp
  then have "fit K \<lparr>feature_length = fl, num_classes = 2\<rparr> s self x ?y b kw
               = Inl UnboundLocalError"
    by (rule fit_not_1D)
  then show ?thesis by simp
qed

text \<open>
  Claim C2. A label vector and its one-hot matrix should give the same encoded labels. On
  the source the vector \<open>[0, 1]\<close> is handed to \<^verbatim>\<open>to_categorical\<close>, while its one-hot
  matrix of the right width raises \<^verbatim>\<open>UnboundLocalError\<close>, so no encoded labels exist for it
  and \<^verbatim>\<open>fit\<close> fails.
\<close>

theorem fit_one_hot_matrix_unbound_local:
  "encode_labels K \<lparr>feature_length = fl, num_classes = 2\<rparr> [] \<lparr>shape = [2], data = [0, 1]\<rparr>
     = to_categorical K \<lparr>shape = [2], data = [0, 1]\<rparr> (PInt 2)
   \<and> encode_labels K \<lparr>feature_length = fl, num_classes = 2\<rparr> []
       \<lparr>shape = [2, 2], data = [1, 0, 0, 1]\<rparr> = Inl UnboundLocalError
   \<and> fit K \<lparr>feature_length = fl, num_classes = 2\<rparr> s self x
       \<lparr>shape = [2, 2], data = [1, 0, 0, 1]\<rparr> b kw = Inl UnboundLocalError"
  by (simp add: fit_not_1D ndim_def encode_labels_def getattr_def class_attrs_def
      local_var_def)

lemma fit_result_eval:
  "fit_result s self (g2, history) =
     (case map_of history ''val_acc'' of
        None \<Rightarrow> Inl KeyError
      | Some accs \<Rightarrow>
          if accs = [] then Inl IndexError
          else Inr (last accs, setattr s self ''model'' (PModel g2)))"
  by (simp add: fit_result_def dict_get_def list_last_def trained_store_def setattr_def
      split: option.splits)

text \<open>
  Claim C6. When the training run goes through (labels encoded, graph built and compiled,
  Keras' \<^verbatim>\<open>fit\<close> returned a history), \<^verbatim>\<open>fit\<close> returns the last element of the history's
  \<^verbatim>\<open>val_acc\<close> sequence; when the history has no \<^verbatim>\<open>val_acc\<close> key, \<^verbatim>\<open>fit\<close> fails with
  \<^verbatim>\<open>KeyError\<close>.
\<close>

theorem fit_returns_last_val_acc:
  assumes "encode_labels K env (objs s self) y = Inr y1"
    and "get_untrained_model K env (objs s self) = Inr g0"
    and "getattr env (objs s self) ''optimizer'' = Inr opt"
    and "getattr env (objs s self) ''loss'' = Inr lo"
    and "getattr env (objs s self) ''metrics'' = Inr me"
    and "keras_compile K g0 opt lo me = Inr g1"
    and "keras_fit K g1 x y1 b kw = Inr (g2, history)"
  shows "(map_of history ''val_acc'' = None \<longrightarrow> fit K env s self x y b kw = Inl KeyError)
     \<and> (\<forall>accs. map_of history ''val_acc'' = Some accs \<and> accs \<noteq> [] \<longrightarrow>
           fit K env s self x y b kw
             = Inr (last accs, setattr s self ''model'' (PModel g2)))"
proof -
  have run: "fit K env s self x y b kw = fit_result s self (g2, history)"
    using assms by (simp add: fit_unfold)
  show ?thesis unfolding run by (simp add: fit_result_eval)
qed







lemma demo_construct: "MNISTClassifer demo_hp empty_store = (0, demo_store)"
  by (simp add: demo_store_def MNISTClassifer_def new_object_def empty_store_def)

lemma demo_store_objs: "objs demo_store 0 = init_dict demo_hp"
  using MNISTClassifer_eq [OF demo_construct] by simp

lemma demo_store_next: "next_ref demo_store = 1"
  using MNISTClassifer_eq [OF demo_construct] by (simp add: empty_store_def)

lemma fitted_store_model: "map_of (objs fitted_store 0) ''model'' = Some (PModel 3)"
  by (simp add: fitted_store_def)

lemma fitted_store_wf: "wf_dict (objs fitted_store 0)"
  by (simp add: fitted_store_def demo_store_objs init_dict_def dict_set_def wf_dict_def)

lemma one_hot_rows: "one_hot_row 2 0 = [1, 0]" "one_hot_row 2 1 = [0, 1]"
  by (simp_all add: one_hot_row_def eval_nat_numeral)

lemma demo_encode: "encode_labels toy_keras small_env (objs demo_store 0) demo_labels = Inr demo_one_hot"
  by (simp add: encode_labels_def demo_labels_def demo_one_hot_def ndim_def
      getattr_class [OF init_dict_unshadowed] demo_store_objs small_env_def toy_keras_def
      toy_to_categorical_def one_hot_rows)

lemma demo_build: "get_untrained_model toy_keras small_env (objs demo_store 0) = Inr 0"
  using graph_layers_eval [of small_env "init_dict demo_hp" demo_hp]
  by (simp add: get_untrained_model_def demo_store_objs init_dict_has_hyperparams
      init_dict_unshadowed small_env_def toy_keras_def)

lemma demo_training_attrs:
  "getattr small_env (objs demo_store 0) ''optimizer'' = Inr (PStr ''sgd'')"
  "getattr small_env (objs demo_store 0) ''loss'' = Inr (PStr ''categorical_crossentropy'')"
  "getattr small_env (objs demo_store 0) ''metrics'' = Inr (PList [PStr ''accuracy''])"
  by (simp_all add: demo_store_objs init_dict_def getattr_def demo_hp_def default_hyperparams_def)

theorem untrained_graph_topology_witness:
  "graph_layers mnist_env (objs demo_store 0) = Inr (spec_topology mnist_env demo_hp)
   \<and> get_untrained_model toy_keras mnist_env (objs demo_store 0) = Inr 0
   \<and> image_side mnist_env = 28"
proof -
  have h1: "0 \<le> feature_length mnist_env" by (simp add: mnist_env_def)
  have h2: "feature_length mnist_env < 2 ^ 52" by (simp add: mnist_env_def)
  have h3: "has_hyperparams (objs demo_store 0) demo_hp"
    by (simp add: demo_store_objs init_dict_has_hyperparams)
  have h4: "class_attrs_unshadowed (objs demo_store 0)"
    by (simp add: demo_store_objs init_dict_unshadowed)
  have "isqrt 784 = 28" by code_simp
  then have side: "image_side mnist_env = 28" by (simp add: image_side_def mnist_env_def)
  from untrained_graph_topology [OF h1 h2 h3 h4, of toy_keras] side
  show ?thesis by (simp add: toy_keras_def)
qed

lemma demo_roundtrip_calls:
  "0 < next_ref fitted_store"
  "get_config toy_keras 3 = Inr (PStr ''config'')"
  "get_weights toy_keras 3 = Inr [[0], [0], [0]]"
  "from_config toy_keras (PStr ''config'') = Inr 0"
  "set_weights toy_keras 0 (PList (map (tolist toy_keras) [[0], [0], [0]])) = Inr 3"
  by (simp_all add: fitted_store_def demo_store_next toy_keras_def toy_set_weights_def
      eval_nat_numeral)

lemma fitted_store_hyperparams:
  "map_of (objs fitted_store 0) ''optimizer'' = Some (PStr ''sgd'')"
  "map_of (objs fitted_store 0) ''conv_layer_one_filters'' = Some (PInt 32)"
  by (simp_all add: fitted_store_def demo_store_objs init_dict_def demo_hp_def)

theorem json_roundtrip_witness:
  "\<exists>doc s1 new s2.
       to_json toy_keras small_env fitted_store 0 = Inr (doc, s1)
     \<and> from_json toy_keras small_env s1 doc = Inr (new, s2)
     \<and> new \<noteq> 0
     \<and> map_of (objs s2 new) ''model'' = Some (PModel 3)
     \<and> map_of (objs s2 new) ''optimizer'' = Some (PStr ''sgd'')
     \<and> map_of (objs s2 new) ''conv_layer_one_filters'' = Some (PInt 32)"
proof -
  from json_roundtrip [OF demo_roundtrip_calls(1) fitted_store_wf fitted_store_model
      demo_roundtrip_calls(2-5), of small_env]
  obtain doc s1 new s2 where
    r: "to_json toy_keras small_env fitted_store 0 = Inr (doc, s1)
     \<and> from_json toy_keras small_env s1 doc = Inr (new, s2)
     \<and> new \<noteq> 0
     \<and> map_of (objs s2 new) ''model'' = Some (PModel 3)
     \<and> (\<forall>k v. k \<noteq> ''model'' \<and> k \<noteq> ''model_config'' \<and> k \<noteq> ''model_weights'' \<longrightarrow>
           map_of (objs fitted_store 0) k = Some v \<longrightarrow> map_of (objs s2 new) k = Some v)
     \<and> (\<forall>hp. has_hyperparams (objs fitted_store 0) hp \<longrightarrow> has_hyperparams (objs s2 new) hp)"
    by (elim exE) (rule that)
  note keep = r [THEN conjunct2, THEN conjunct2, THEN conjunct2, THEN conjunct2,
      THEN conjunct1, rule_format]
  have o: "map_of (objs s2 new) ''optimizer'' = Some (PStr ''sgd'')"
    by (rule keep [OF _ fitted_store_hyperparams(1)]) simp
  have f: "map_of (objs s2 new) ''conv_layer_one_filters'' = Some (PInt 32)"
    by (rule keep [OF _ fitted_store_hyperparams(2)]) simp
  note r1 = r [THEN conjunct1]
  note r2 = r [THEN conjunct2, THEN conjunct1]
  note r3 = r [THEN conjunct2, THEN conjunct2, THEN conjunct1]
  note r4 = r [THEN conjunct2, THEN conjunct2, THEN conjunct2, THEN conjunct1]
  show ?thesis
    by (intro exI conjI) (rule r1 r2 r3 r4 o f)+
qed

lemma demo_to_json:
  "to_json toy_keras small_env fitted_store 0 =
     Inr (0, fitted_store\<lparr>objs := (objs fitted_store)
            (0 := serialized toy_keras (objs fitted_store 0) (PStr ''config'') [[0], [0], [0]])\<rparr>)"
  by (rule to_json_eval [OF fitted_store_model]) (simp_all add: toy_keras_def eval_nat_numeral)

theorem to_json_aliases_instance_witness:
  "\<exists>s'. to_json toy_keras small_env fitted_store 0 = Inr (0, s')
     \<and> map_of (objs s' 0) ''model'' = None
     \<and> map_of (objs s' 0) ''model_config'' = Some (PStr ''config'')
     \<and> map_of (objs s' 0) ''model_weights''
          = Some (PList [PList [PInt 0], PList [PInt 0], PList [PInt 0]])"
  using to_json_aliases_instance [OF demo_to_json] demo_to_json
  by (auto simp: toy_keras_def fitted_store_model eval_nat_numeral)

theorem to_json_needs_graph_witness:
  "to_json toy_keras small_env demo_store 0 = Inl AttributeError
   \<and> (\<exists>doc s1. to_json toy_keras small_env fitted_store 0 = Inr (doc, s1)
        \<and> to_json toy_keras small_env s1 0 = Inl AttributeError)"
proof -
  note a = to_json_needs_graph [where K = toy_keras and env = small_env,
      THEN conjunct2, THEN conjunct1, THEN mp, OF demo_construct]
  note b = to_json_needs_graph [THEN conjunct2, THEN conjunct2, THEN mp, OF demo_to_json]
  show ?thesis
    by (intro conjI exI) (rule a demo_to_json b)+
qed

theorem predict_needs_graph_witness:
  "predict toy_keras small_env demo_store 0 [[1, 2]] = Inl AttributeError"
  by (rule predict_needs_graph [THEN conjunct2, THEN mp, OF demo_construct])


lemma encode_labels_cong:
  "to_categorical K' = to_categorical K \<Longrightarrow> encode_labels K' env d y = encode_labels K env d y"
  by (simp add: encode_labels_def)

lemma get_untrained_model_cong:
  "keras_Model K' = keras_Model K \<Longrightarrow>
     get_untrained_model K' env d = get_untrained_model K env d"
  by (simp add: get_untrained_model_def)

lemma demo_compile_fit:
  "keras_compile toy_keras 0 (PStr ''sgd'') (PStr ''categorical_crossentropy'')
     (PList [PStr ''accuracy'']) = Inr 0"
  "keras_fit toy_keras 0 [[0, 0, 0, 1], [1, 0, 0, 0]] demo_one_hot 1 ()
     = Inr (1, [(''loss'', [2, 1]), (''val_acc'', [5, 7])])"
  by (simp_all add: toy_keras_def)

lemma demo_no_validation:
  "encode_labels toy_keras_no_validation small_env (objs demo_store 0) demo_labels
     = Inr demo_one_hot"
  "get_untrained_model toy_keras_no_validation small_env (objs demo_store 0) = Inr 0"
  "keras_compile toy_keras_no_validation 0 (PStr ''sgd'') (PStr ''categorical_crossentropy'')
     (PList [PStr ''accuracy'']) = Inr 0"
  "keras_fit toy_keras_no_validation 0 [[0, 0, 0, 1], [1, 0, 0, 0]] demo_one_hot 1 ()
     = Inr (1, [(''loss'', [2, 1])])"
proof -
  have "to_categorical toy_keras_no_validation = to_categorical toy_keras"
    by (simp add: toy_keras_no_validation_def)
  from encode_labels_cong [OF this] demo_encode
  show "encode_labels toy_keras_no_validation small_env (objs demo_store 0) demo_labels
     = Inr demo_one_hot" by simp
  have "keras_Model toy_keras_no_validation = keras_Model toy_keras"
    by (simp add: toy_keras_no_validation_def)
  from get_untrained_model_cong [OF this] demo_build
  show "get_untrained_model toy_keras_no_validation small_env (objs demo_store 0) = Inr 0"
    by simp
  show "keras_compile toy_keras_no_validation 0 (PStr ''sgd'')
     (PStr ''categorical_crossentropy'') (PList [PStr ''accuracy'']) = Inr 0"
    by (simp add: toy_keras_no_validation_def toy_keras_def)
  show "keras_fit toy_keras_no_validation 0 [[0, 0, 0, 1], [1, 0, 0, 0]] demo_one_hot 1 ()
     = Inr (1, [(''loss'', [2, 1])])"
    by (simp add: toy_keras_no_validation_def)
qed

theorem fit_returns_last_val_acc_witness:
  "fit toy_keras small_env demo_store 0 [[0, 0, 0, 1], [1, 0, 0, 0]] demo_labels 1 ()
     = Inr (7, setattr demo_store 0 ''model'' (PModel 1))
   \<and> fit toy_keras_no_validation small_env demo_store 0 [[0, 0, 0, 1], [1, 0, 0, 0]]
       demo_labels 1 () = Inl KeyError"
proof -
  note w1 = fit_returns_last_val_acc [OF demo_encode demo_build demo_training_attrs
      demo_compile_fit, THEN conjunct2, rule_format, of "[5, 7]"]
  note w2 = fit_returns_last_val_acc [OF demo_no_validation(1,2) demo_training_attrs
      demo_no_validation(3,4), THEN conjunct1, rule_format]
  have "fit toy_keras small_env demo_store 0 [[0, 0, 0, 1], [1, 0, 0, 0]] demo_labels 1 ()
     = Inr (7, setattr demo_store 0 ''model'' (PModel 1))"
    using w1 by simp
  moreover have "fit toy_keras_no_validation small_env demo_store 0
      [[0, 0, 0, 1], [1, 0, 0, 0]] demo_labels 1 () = Inl KeyError"
    using w2 by simp
  ultimately show ?thesis by (rule conjI)
qed



end
